theory Spec2Isabelle
  imports Complex_Main "HOL-Library.Log_Nat"
begin

section \<open>Python floats\<close>

text \<open>
  The amounts and prices of the tracker are Python floats (\<open>float(input(...))\<close>, the
  numbers of a JSON document): IEEE 754 binary64 values. A finite float is given by the
  rational number it denotes; the two zeros are not told apart (they compare equal, and
  the tracker never divides by one). \<open>float('inf')\<close>, \<open>float('-inf')\<close> and
  \<open>float('nan')\<close> are values of their own, and the interactive menu accepts all three.
\<close>

datatype pyfloat = Finite rat | PInf | NInf | NaN

text \<open>
  Rounding to the nearest binary64 value, ties to even: 53 significant bits, exponents
  from \<open>-1022\<close> to 1023, subnormal numbers below, infinity from \<open>2 ^ 1024\<close> on.
\<close>

definition round_half_even :: "rat \<Rightarrow> int" where
  "round_half_even r =
     (let f = \<lfloor>r\<rfloor>; d = r - of_int f
      in if d < 1 / 2 then f else if 1 / 2 < d then f + 1 else if even f then f else f + 1)"

definition pow2 :: "int \<Rightarrow> rat" where
  "pow2 e = (if 0 \<le> e then of_int (2 ^ nat e) else 1 / of_int (2 ^ nat (- e)))"

text \<open>
  For \<open>x > 0\<close>, the exponent \<open>e\<close> with \<open>2 ^ e \<le> x < 2 ^ (e + 1)\<close>, found from the bit
  lengths of numerator and denominator, and not below \<open>-1022\<close>.
\<close>

definition binade :: "rat \<Rightarrow> int" where
  "binade x =
     (let (p, q) = quotient_of x; d = bitlen p - bitlen q;
          e = (if pow2 d \<le> x then d else d - 1)
      in max e (- 1022))"

definition round64 :: "rat \<Rightarrow> pyfloat" where
  "round64 x =
     (if x = 0 then Finite 0
      else let u = pow2 (binade \<bar>x\<bar> - 52);
               y = of_int (round_half_even (x / u)) * u
           in if pow2 1024 \<le> y then PInf else if y \<le> - pow2 1024 then NInf else Finite y)"

text \<open>
  The operations of Python on floats. A finite result is the exact result rounded; adding
  zero returns the other operand as it is. Infinities and \<open>nan\<close> follow IEEE 754, and
  no operation but division raises.
\<close>

fun fl_neg :: "pyfloat \<Rightarrow> pyfloat" where
  "fl_neg (Finite a) = Finite (- a)"
| "fl_neg PInf = NInf"
| "fl_neg NInf = PInf"
| "fl_neg NaN = NaN"

fun fl_add :: "pyfloat \<Rightarrow> pyfloat \<Rightarrow> pyfloat" where
  "fl_add NaN b = NaN"
| "fl_add a NaN = NaN"
| "fl_add (Finite a) (Finite b) =
     (if a = 0 then Finite b else if b = 0 then Finite a else round64 (a + b))"
| "fl_add (Finite a) b = b"
| "fl_add a (Finite b) = a"
| "fl_add a b = (if a = b then a else NaN)"

fun fl_mul :: "pyfloat \<Rightarrow> pyfloat \<Rightarrow> pyfloat" where
  "fl_mul NaN b = NaN"
| "fl_mul a NaN = NaN"
| "fl_mul (Finite a) (Finite b) = round64 (a * b)"
| "fl_mul (Finite a) b = (if a = 0 then NaN else if 0 < a then b else fl_neg b)"
| "fl_mul a (Finite b) = (if b = 0 then NaN else if 0 < b then a else fl_neg a)"
| "fl_mul a b = (if a = b then PInf else NInf)"

text \<open>The quotient for a divisor that is not zero.\<close>

fun fl_div :: "pyfloat \<Rightarrow> pyfloat \<Rightarrow> pyfloat" where
  "fl_div NaN b = NaN"
| "fl_div a NaN = NaN"
| "fl_div (Finite a) (Finite b) = round64 (a / b)"
| "fl_div (Finite a) b = Finite 0"
| "fl_div a (Finite b) = (if 0 < b then a else fl_neg a)"
| "fl_div a b = NaN"

text \<open>\<open><\<close> and \<open>==\<close>: every comparison with \<open>nan\<close> is false.\<close>

fun fl_less :: "pyfloat \<Rightarrow> pyfloat \<Rightarrow> bool" where
  "fl_less (Finite a) (Finite b) = (a < b)"
| "fl_less NInf (Finite b) = True"
| "fl_less NInf PInf = True"
| "fl_less (Finite a) PInf = True"
| "fl_less a b = False"

fun fl_eq :: "pyfloat \<Rightarrow> pyfloat \<Rightarrow> bool" where
  "fl_eq (Finite a) (Finite b) = (a = b)"
| "fl_eq PInf PInf = True"
| "fl_eq NInf NInf = True"
| "fl_eq a b = False"

text \<open>\<open>math.isfinite\<close>.\<close>

fun is_finite :: "pyfloat \<Rightarrow> bool" where
  "is_finite (Finite a) = True"
| "is_finite a = False"

instantiation pyfloat :: "{zero, plus, minus, uminus, times, ord}"
begin

definition zero_pyfloat_def: "0 = Finite 0"
definition plus_pyfloat_def: "a + b = fl_add a b"
definition uminus_pyfloat_def: "- a = fl_neg a"
definition minus_pyfloat_def: "a - b = fl_add a (fl_neg b)"
definition times_pyfloat_def: "a * b = fl_mul a b"
definition less_pyfloat_def: "a < b \<longleftrightarrow> fl_less a b"
definition less_eq_pyfloat_def: "a \<le> b \<longleftrightarrow> fl_less a b \<or> fl_eq a b"

instance ..

end

section \<open>The data of \<open>crypto_portfolio.py\<close>\<close>

text \<open>
  The tracker keeps its portfolio as the JSON document it loads and saves: a dictionary
  with the two lists \<open>holdings\<close> and \<open>transactions\<close>, whose entries are dictionaries
  with a fixed set of keys. Each such dictionary is a record here. Timestamps are the
  text that \<open>datetime.now().isoformat()\<close> returns.
\<close>

record holding =
  coin_id :: string
  coin_name :: string
  symbol :: string
  amount :: pyfloat
  buy_price :: pyfloat
  date_added :: string

record transaction =
  t_type :: string
  t_coin_id :: string
  t_amount :: pyfloat
  t_price :: pyfloat
  t_date :: string

record portfolio =
  holdings :: "holding list"
  transactions :: "transaction list"

text \<open>
  What \<open>get_price\<close> returns is a dictionary from field names (\<open>usd\<close>,
  \<open>usd_24h_change\<close>, \<open>usd_market_cap\<close>) to numbers, possibly empty. It is an
  association list; \<open>dict_get\<close> is \<open>dict.get(key, default)\<close>. A number of the
  response stands for the float that Python's arithmetic makes of it.
\<close>

type_synonym price_data = "(string \<times> pyfloat) list"

definition dict_get :: "(string \<times> 'v) list \<Rightarrow> string \<Rightarrow> 'v \<Rightarrow> 'v" where
  "dict_get d k dflt = (case map_of d k of None \<Rightarrow> dflt | Some v \<Rightarrow> v)"

text \<open>The entries of \<open>holdings_data\<close> and the dictionary \<open>calculate_portfolio_value\<close> returns.\<close>

record valuation_row =
  r_symbol :: string
  r_coin_name :: string
  r_amount :: pyfloat
  r_buy_price :: pyfloat
  r_current_price :: pyfloat
  r_current_value :: pyfloat
  r_invested :: pyfloat
  r_profit_loss :: pyfloat
  r_profit_loss_pct :: pyfloat
  r_change_24h :: pyfloat

record valuation =
  total_value :: pyfloat
  total_invested :: pyfloat
  total_profit_loss :: pyfloat
  total_profit_loss_pct :: pyfloat
  v_holdings :: "valuation_row list"

text \<open>The lines the operations print, without their decoration.\<close>

datatype message =
    Error_fetching_price string
  | Added pyfloat string pyfloat
  | Removed string
  | Invalid_index

datatype error = ZeroDivisionError | OSError | JSONDecodeError





section \<open>The tracker object and its surroundings\<close>

text \<open>
  One record holds the object (\<open>self.filename\<close>, \<open>self.portfolio\<close>) and what it acts
  on: the text of every file that exists, the names under which \<open>open(name, 'w')\<close>
  succeeds, the lines printed so far, the exception with which an operation has ended,
  if any, and the state \<open>ext\<close> of the outside world that the clock and the price service
  depend on.
\<close>

record ('t, 'x) state =
  filename :: string
  portfolio :: portfolio
  files :: "string \<Rightarrow> 't option"
  writable :: "string \<Rightarrow> bool"
  printed :: "message list"
  raised :: "error option"
  ext :: 'x

text \<open>
  \<open>json.dump(document, f, indent=2)\<close> and \<open>json.load(f)\<close> belong to Python's library,
  not to the tracker. They are parameters: \<open>json_dump\<close> gives the text written for a
  document, \<open>json_load\<close> the document read from a text, or the exception it raises.
\<close>

type_synonym 't json_dump = "portfolio \<Rightarrow> 't"

type_synonym 't json_load = "'t \<Rightarrow> error + portfolio"

text \<open>
  \<open>datetime.now().isoformat()\<close>: one reading of the clock. A reading may change the
  outside world, so that the next one can differ.
\<close>

type_synonym 'x clock = "'x \<Rightarrow> string \<times> 'x"

text \<open>
  \<open>requests.get(url, params)\<close>, \<open>raise_for_status()\<close> and \<open>response.json()\<close> for a
  coin id: \<open>None\<close> when one of them raises, else the dictionary of the response body,
  from coin ids to price data.
\<close>

type_synonym 'x http = "'x \<Rightarrow> string \<Rightarrow> (string \<times> price_data) list option \<times> 'x"


text \<open>
  When the file cannot be opened for writing, \<open>open\<close> raises and nothing is written.
\<close>

definition save_portfolio :: "'t json_dump \<Rightarrow> ('t, 'x) state \<Rightarrow> error + ('t, 'x) state" where
  "save_portfolio json_dump st =
     (if writable st (filename st)
      then Inr (st\<lparr>files := (files st)(filename st \<mapsto> json_dump (portfolio st))\<rparr>)
      else Inl OSError)"


definition get_price ::
  "'x http \<Rightarrow> ('t, 'x) state \<Rightarrow> string \<Rightarrow> price_data \<times> ('t, 'x) state" where
  "get_price http st cid =
     (case http (ext st) cid of
        (Some body, x') \<Rightarrow> (dict_get body cid [], st\<lparr>ext := x'\<rparr>)
      | (None, x') \<Rightarrow>
          ([], st\<lparr>ext := x', printed := printed st @ [Error_fetching_price cid]\<rparr>))"

subsection \<open>Adding and removing holdings\<close>

text \<open>
  \<open>str.upper\<close> on ASCII text: the letters \<open>a\<close> to \<open>z\<close> become \<open>A\<close> to \<open>Z\<close>, every
  other byte stays. (On other letters \<open>str.upper\<close> follows Unicode, which this does not.)
\<close>

definition upper_char :: "char \<Rightarrow> char" where
  "upper_char c =
     (let n = (of_char c :: nat) in if 97 \<le> n \<and> n \<le> 122 then char_of (n - 32) else c)"

definition upper :: "string \<Rightarrow> string" where
  "upper s = map upper_char s"

text \<open>
  When \<open>save_portfolio\<close> raises, the exception leaves \<open>add_holding\<close> and
  \<open>remove_holding\<close> before their last line, the \<open>print\<close>.
\<close>

definition add_holding ::
  "'t json_dump \<Rightarrow> 'x clock \<Rightarrow> ('t, 'x) state
     \<Rightarrow> string \<Rightarrow> string \<Rightarrow> string \<Rightarrow> pyfloat \<Rightarrow> pyfloat \<Rightarrow> ('t, 'x) state" where
  "add_holding json_dump now st cid cname symb amt bp =
     (let (d1, x1) = now (ext st);
          holding = \<lparr>coin_id = cid, coin_name = cname, symbol = upper symb,
                     amount = amt, buy_price = bp, date_added = d1\<rparr>;
          st1 = st\<lparr>ext := x1,
                   portfolio := (portfolio st)\<lparr>holdings := holdings (portfolio st) @ [holding]\<rparr>\<rparr>;
          (d2, x2) = now (ext st1);
          transaction = \<lparr>t_type = ''buy'', t_coin_id = cid, t_amount = amt,
                         t_price = bp, t_date = d2\<rparr>;
          st2 = st1\<lparr>ext := x2,
                    portfolio := (portfolio st1)\<lparr>transactions :=
                                   transactions (portfolio st1) @ [transaction]\<rparr>\<rparr>
      in case save_portfolio json_dump st2 of
           Inl e \<Rightarrow> st2\<lparr>raised := Some e\<rparr>
         | Inr st3 \<Rightarrow> st3\<lparr>printed := printed st3 @ [Added amt (upper symb) bp]\<rparr>)"

text \<open>
  The index is a Python integer. Inside the guard \<open>0 <= index < len(...)\<close> the call
  \<open>list.pop(index)\<close> neither counts from the end nor raises: it returns the element at
  \<open>index\<close> and leaves the list without it.
\<close>

definition remove_holding :: "'t json_dump \<Rightarrow> ('t, 'x) state \<Rightarrow> int \<Rightarrow> ('t, 'x) state" where
  "remove_holding json_dump st index =
     (if 0 \<le> index \<and> index < int (length (holdings (portfolio st))) then
        (let hs = holdings (portfolio st);
             removed = hs ! nat index;
             st1 = st\<lparr>portfolio := (portfolio st)\<lparr>holdings :=
                        take (nat index) hs @ drop (Suc (nat index)) hs\<rparr>\<rparr>
         in case save_portfolio json_dump st1 of
              Inl e \<Rightarrow> st1\<lparr>raised := Some e\<rparr>
            | Inr st2 \<Rightarrow> st2\<lparr>printed := printed st2 @ [Removed (symbol removed)]\<rparr>)
      else st\<lparr>printed := printed st @ [Invalid_index]\<rparr>)"

subsection \<open>Valuation\<close>

text \<open>Python's \<open>/\<close> raises on a divisor equal to zero, whatever the dividend.\<close>

definition truediv :: "pyfloat \<Rightarrow> pyfloat \<Rightarrow> error + pyfloat" where
  "truediv a b = (if b = Finite 0 then Inl ZeroDivisionError else Inr (fl_div a b))"

text \<open>\<open>(profit_loss / invested * 100) if invested > 0 else 0\<close>, used for a row and for the totals.\<close>

definition pct :: "pyfloat \<Rightarrow> pyfloat \<Rightarrow> error + pyfloat" where
  "pct profit_loss invested =
     (if invested > 0
      then (case truediv profit_loss invested of
              Inl e \<Rightarrow> Inl e
            | Inr q \<Rightarrow> Inr (q * Finite 100))
      else Inr 0)"

text \<open>The body of the loop for a holding whose price data is not empty, up to the row.\<close>

definition holding_row :: "holding \<Rightarrow> price_data \<Rightarrow> error + valuation_row" where
  "holding_row holding price_data =
     (let current_price = dict_get price_data ''usd'' 0;
          change_24h = dict_get price_data ''usd_24h_change'' 0;
          current_value = amount holding * current_price;
          invested = amount holding * buy_price holding;
          profit_loss = current_value - invested
      in case pct profit_loss invested of
           Inl e \<Rightarrow> Inl e
         | Inr profit_loss_pct \<Rightarrow>
             Inr \<lparr>r_symbol = symbol holding, r_coin_name = coin_name holding,
                  r_amount = amount holding, r_buy_price = buy_price holding,
                  r_current_price = current_price, r_current_value = current_value,
                  r_invested = invested, r_profit_loss = profit_loss,
                  r_profit_loss_pct = profit_loss_pct, r_change_24h = change_24h\<rparr>)"

text \<open>
  The loop over the holdings, with the three variables it updates: \<open>total_value\<close>,
  \<open>total_invested\<close> and \<open>holdings_data\<close>.
\<close>

fun valuation_loop ::
  "'x http \<Rightarrow> holding list \<Rightarrow> pyfloat \<times> pyfloat \<times> valuation_row list \<Rightarrow> ('t, 'x) state
     \<Rightarrow> error + ((pyfloat \<times> pyfloat \<times> valuation_row list) \<times> ('t, 'x) state)" where
  "valuation_loop http [] acc st = Inr (acc, st)"
| "valuation_loop http (holding # rest) (tv, ti, rows) st =
     (case get_price http st (coin_id holding) of
        (price_data, st') \<Rightarrow>
          if price_data = [] then valuation_loop http rest (tv, ti, rows) st'
          else (case holding_row holding price_data of
                  Inl e \<Rightarrow> Inl e
                | Inr row \<Rightarrow>
                    valuation_loop http rest
                      (tv + r_current_value row, ti + r_invested row, rows @ [row]) st'))"

definition calculate_portfolio_value ::
  "'x http \<Rightarrow> ('t, 'x) state \<Rightarrow> error + (valuation \<times> ('t, 'x) state)" where
  "calculate_portfolio_value http st =
     (case valuation_loop http (holdings (portfolio st)) (0, 0, []) st of
        Inl e \<Rightarrow> Inl e
      | Inr ((tv, ti, rows), st') \<Rightarrow>
          (let tpl = tv - ti in
           case pct tpl ti of
             Inl e \<Rightarrow> Inl e
           | Inr tpl_pct \<Rightarrow>
               Inr (\<lparr>total_value = tv, total_invested = ti,
                     total_profit_loss = tpl,
                     total_profit_loss_pct = tpl_pct,
                     v_holdings = rows\<rparr>, st')))"

text \<open>
  The price data that the calls of \<open>get_price\<close> made by the loop return, one for each
  holding and in the order of the holdings. It is what the statements below call the
  quote of a holding; the empty dictionary stands for no quote.
\<close>

fun price_lookups :: "'x http \<Rightarrow> ('t, 'x) state \<Rightarrow> holding list \<Rightarrow> price_data list" where
  "price_lookups http st [] = []"
| "price_lookups http st (holding # rest) =
     (case get_price http st (coin_id holding) of
        (price_data, st') \<Rightarrow> price_data # price_lookups http st' rest)"

text \<open>The holdings that have a quote, each with its quote.\<close>

definition priced :: "'x http \<Rightarrow> ('t, 'x) state \<Rightarrow> (holding \<times> price_data) list" where
  "priced http st =
     filter (\<lambda>(h, pd). pd \<noteq> [])
       (zip (holdings (portfolio st)) (price_lookups http st (holdings (portfolio st))))"

section \<open>A sample run\<close>

text \<open>
  Concrete surroundings on which the statements below are tried. The price service
  knows \<open>bitcoin\<close> with a price, \<open>dollar\<close> with the price 1, knows \<open>tether\<close> without
  a \<open>usd\<close> field, raises for \<open>offline\<close> and answers every other coin id with an empty
  body; it counts its requests. The clock returns a new text at every reading. The
  stand-in for the JSON library writes the two lists of a document and reads them back.
\<close>

definition demo_http :: "nat http" where
  "demo_http n cid =
     (if cid = ''bitcoin''
      then Some [(''bitcoin'', [(''usd'', Finite 150), (''usd_24h_change'', Finite 2)])]
      else if cid = ''dollar'' then Some [(''dollar'', [(''usd'', Finite 1)])]
      else if cid = ''tether'' then Some [(''tether'', [(''usd_market_cap'', Finite 1000)])]
      else if cid = ''offline'' then None
      else Some [], Suc n)"

definition demo_clock :: "nat clock" where
  "demo_clock n =
     (if n = 0 then ''2024-01-01T10:00:00.000001'' else ''2024-01-01T10:00:00.000002'', Suc n)"

definition demo_dump :: "(holding list \<times> transaction list) json_dump" where
  "demo_dump p = (holdings p, transactions p)"

definition demo_load :: "(holding list \<times> transaction list) json_load" where
  "demo_load text = Inr \<lparr>holdings = fst text, transactions = snd text\<rparr>"

definition demo_holding :: "string \<Rightarrow> pyfloat \<Rightarrow> pyfloat \<Rightarrow> holding" where
  "demo_holding cid amt bp =
     \<lparr>coin_id = cid, coin_name = cid, symbol = ''SYM'', amount = amt, buy_price = bp,
      date_added = ''2024-01-01T00:00:00''\<rparr>"

definition demo_state :: "holding list \<Rightarrow> (holding list \<times> transaction list, nat) state" where
  "demo_state hs =
     \<lparr>filename = ''portfolio.json'', portfolio = \<lparr>holdings = hs, transactions = []\<rparr>,
      files = (\<lambda>_. None), writable = (\<lambda>_. True), printed = [], raised = None, ext = 0\<rparr>"

definition demo_holdings :: "holding list" where
  "demo_holdings =
     [demo_holding ''bitcoin'' (Finite 2) (Finite 100),
      demo_holding ''nocoin'' (Finite 1) (Finite 5),
      demo_holding ''bitcoin'' (Finite 1) (Finite 0),
      demo_holding ''tether'' (Finite 3) (Finite 10),
      demo_holding ''bitcoin'' (Finite (- 1)) (Finite 50),
      demo_holding ''offline'' (Finite 4) (Finite 4)]"

text \<open>The floats nearest to 0.1 and to 0.2.\<close>

definition tenth :: rat where
  "tenth = 3602879701896397 / 36028797018963968"

definition fifth :: rat where
  "fifth = 3602879701896397 / 18014398509481984"

section \<open>Facts about floats\<close>

lemma round64_zero: "round64 0 = Finite 0"
  by (simp add: round64_def)

lemma zero_not_positive: "\<not> (0 :: pyfloat) < 0"
  by (simp add: less_pyfloat_def zero_pyfloat_def)

lemma positive_not_zero: "(0 :: pyfloat) < b \<Longrightarrow> b \<noteq> Finite 0"
  by (auto simp: less_pyfloat_def zero_pyfloat_def)

lemma negative_not_positive: "(b :: pyfloat) < 0 \<Longrightarrow> \<not> 0 < b"
  by (cases b) (auto simp: less_pyfloat_def zero_pyfloat_def)

lemma times_zero_not_positive: "\<not> 0 < a * (0 :: pyfloat)"
  by (cases a) (auto simp: less_pyfloat_def zero_pyfloat_def times_pyfloat_def round64_zero)

lemma zero_minus: "(0 :: pyfloat) - b = - b"
  by (cases b) (auto simp: minus_pyfloat_def uminus_pyfloat_def zero_pyfloat_def)

lemma finite_times_zero: "Finite a * 0 = 0"
  by (simp add: times_pyfloat_def zero_pyfloat_def round64_zero)

lemma infinite_times_zero: "PInf * 0 = NaN" "NInf * 0 = NaN" "NaN * (0 :: pyfloat) = NaN"
  by (simp_all add: times_pyfloat_def zero_pyfloat_def)

lemma nan_minus: "NaN - b = NaN"
  by (simp add: minus_pyfloat_def)


lemma fl_eq_nan: "\<not> fl_eq a NaN"
  by (cases a) auto

section \<open>Facts about the valuation loop\<close>

text \<open>The guard keeps the division away from a zero divisor, so a percentage is always returned.\<close>

lemma pct_eq: "pct a b = Inr (if 0 < b then fl_div a b * Finite 100 else 0)"
  by (auto simp: pct_def truediv_def dest: positive_not_zero)

lemma holding_row_eq:
  "holding_row h pd =
     Inr \<lparr>r_symbol = symbol h, r_coin_name = coin_name h, r_amount = amount h,
          r_buy_price = buy_price h,
          r_current_price = dict_get pd ''usd'' 0,
          r_current_value = amount h * dict_get pd ''usd'' 0,
          r_invested = amount h * buy_price h,
          r_profit_loss = amount h * dict_get pd ''usd'' 0 - amount h * buy_price h,
          r_profit_loss_pct =
            (if 0 < amount h * buy_price h
             then fl_div (amount h * dict_get pd ''usd'' 0 - amount h * buy_price h)
                    (amount h * buy_price h) * Finite 100
             else 0),
          r_change_24h = dict_get pd ''usd_24h_change'' 0\<rparr>"
  by (simp add: holding_row_def pct_eq Let_def)

lemma valuation_loop_char:
  "\<exists>new st'.
     valuation_loop http hs (tv, ti, rows) st =
       Inr ((foldl (+) tv (map r_current_value new),
             foldl (+) ti (map r_invested new), rows @ new), st')
     \<and> map Inr new =
         map (\<lambda>(h, pd). holding_row h pd)
           (filter (\<lambda>(h, pd). pd \<noteq> []) (zip hs (price_lookups http st hs)))
     \<and> portfolio st' = portfolio st \<and> files st' = files st \<and> filename st' = filename st"
proof (induction hs arbitrary: tv ti rows st)
  case Nil
  show ?case by simp
next
  case (Cons h hs)
  obtain pd st1 where gp: "get_price http st (coin_id h) = (pd, st1)"
    by (cases "get_price http st (coin_id h)")
  have fr: "portfolio st1 = portfolio st \<and> files st1 = files st \<and> filename st1 = filename st"
    using gp by (auto simp: get_price_def split: prod.splits option.splits)
  show ?case
  proof (cases "pd = []")
    case True
    from Cons.IH [of tv ti rows st1] show ?thesis
      using gp True fr by auto
  next
    case False
    obtain row where row: "holding_row h pd = Inr row"
      using holding_row_eq by blast
    from Cons.IH [of "tv + r_current_value row" "ti + r_invested row" "rows @ [row]" st1]
    obtain new st' where
      L: "valuation_loop http hs (tv + r_current_value row, ti + r_invested row, rows @ [row]) st1
           = Inr ((foldl (+) (tv + r_current_value row) (map r_current_value new),
                   foldl (+) (ti + r_invested row) (map r_invested new),
                   (rows @ [row]) @ new), st')"
      and M: "map Inr new = map (\<lambda>(h, pd). holding_row h pd)
                (filter (\<lambda>(h, pd). pd \<noteq> []) (zip hs (price_lookups http st1 hs)))"
      and F: "portfolio st' = portfolio st1 \<and> files st' = files st1 \<and> filename st' = filename st1"
      by blast
    show ?thesis
      apply (rule exI [of _ "row # new"], rule exI [of _ st'])
      using gp False row L M F fr by simp
  qed
qed

lemma calculate_char:
  "\<exists>v st'. calculate_portfolio_value http st = Inr (v, st')
     \<and> map Inr (v_holdings v) = map (\<lambda>(h, pd). holding_row h pd) (priced http st)
     \<and> total_value v = foldl (+) 0 (map r_current_value (v_holdings v))
     \<and> total_invested v = foldl (+) 0 (map r_invested (v_holdings v))
     \<and> total_profit_loss v = total_value v - total_invested v
     \<and> total_profit_loss_pct v =
         (if 0 < total_invested v
          then fl_div (total_profit_loss v) (total_invested v) * Finite 100 else 0)
     \<and> portfolio st' = portfolio st \<and> files st' = files st \<and> filename st' = filename st"
proof -
  obtain new st' where
    L: "valuation_loop http (holdings (portfolio st)) (0, 0, []) st =
          Inr ((foldl (+) 0 (map r_current_value new),
                foldl (+) 0 (map r_invested new), [] @ new), st')"
    and M: "map Inr new = map (\<lambda>(h, pd). holding_row h pd) (priced http st)"
    and F: "portfolio st' = portfolio st \<and> files st' = files st \<and> filename st' = filename st"
    unfolding priced_def using valuation_loop_char [of http "holdings (portfolio st)" 0 0 "[]" st]
    by blast
  show ?thesis
    apply (rule exI [of _ "\<lparr>total_value = foldl (+) 0 (map r_current_value new),
        total_invested = foldl (+) 0 (map r_invested new),
        total_profit_loss =
          foldl (+) 0 (map r_current_value new) - foldl (+) 0 (map r_invested new),
        total_profit_loss_pct =
          (if 0 < foldl (+) 0 (map r_invested new)
           then fl_div (foldl (+) 0 (map r_current_value new) - foldl (+) 0 (map r_invested new))
                  (foldl (+) 0 (map r_invested new)) * Finite 100
           else 0),
        v_holdings = new\<rparr>"], rule exI [of _ st'])
    using L M F by (simp add: calculate_portfolio_value_def pct_eq Let_def)
qed

lemma rows_of_priced:
  "map Inr rows = map (\<lambda>(h, pd). holding_row h pd) ps
     \<Longrightarrow> list_all2 (\<lambda>r (h, pd). holding_row h pd = Inr r) rows ps"
proof (induction rows arbitrary: ps)
  case Nil
  then show ?case by simp
next
  case (Cons r rows)
  then obtain p ps' where ps: "ps = p # ps'" by (cases ps) auto
  with Cons show ?case by (cases p) auto
qed

lemma length_price_lookups: "length (price_lookups http st hs) = length hs"
  by (induction hs arbitrary: st) (auto split: prod.splits)

lemma length_priced_le: "length (priced http st) \<le> length (holdings (portfolio st))"
  unfolding priced_def
  by (rule order_trans [OF length_filter_le]) (simp add: length_price_lookups)

lemma filter_zip_full:
  "length xs = length ys \<Longrightarrow>
     (length (filter (\<lambda>(x, y). P y) (zip xs ys)) = length xs) = (\<forall>y \<in> set ys. P y)"
proof (induction xs ys rule: list_induct2)
  case Nil
  then show ?case by simp
next
  case (Cons x xs y ys)
  have le: "length (filter (\<lambda>(x, y). P y) (zip xs ys)) \<le> length xs"
    by (rule order_trans [OF length_filter_le]) simp
  show ?case using Cons le by auto
qed

lemma all_quoted_iff:
  "(length (priced http st) = length (holdings (portfolio st)))
     = (\<forall>pd \<in> set (price_lookups http st (holdings (portfolio st))). pd \<noteq> [])"
  unfolding priced_def
  by (rule filter_zip_full) (simp add: length_price_lookups)

lemma row_of_priced:
  assumes "list_all2 (\<lambda>r (h, pd). holding_row h pd = Inr r) rows ps" and "r \<in> set rows"
  shows "\<exists>h pd. (h, pd) \<in> set ps \<and> holding_row h pd = Inr r"
proof -
  from assms(2) obtain i where i: "i < length rows" "rows ! i = r"
    by (auto simp: in_set_conv_nth)
  from assms(1) i have "i < length ps" and "(case ps ! i of (h, pd) \<Rightarrow> holding_row h pd = Inr r)"
    by (auto simp: list_all2_conv_all_nth)
  then show ?thesis
    by (cases "ps ! i") (auto simp: in_set_conv_nth)
qed

lemma priced_has_row:
  assumes "list_all2 (\<lambda>r (h, pd). holding_row h pd = Inr r) rows ps" and "(h, pd) \<in> set ps"
  shows "\<exists>r \<in> set rows. holding_row h pd = Inr r"
proof -
  from assms(2) obtain i where i: "i < length ps" "ps ! i = (h, pd)"
    by (auto simp: in_set_conv_nth)
  from assms(1) i have "i < length rows" and "holding_row h pd = Inr (rows ! i)"
    by (auto simp: list_all2_conv_all_nth)
  then show ?thesis
    by (auto simp: in_set_conv_nth)
qed

text \<open>The value a call returns, for the evaluation of the sample run.\<close>

lemma returned_valuation:
  "calculate_portfolio_value http st = Inr (v, st')
     \<Longrightarrow> v = fst (projr (calculate_portfolio_value http st))"
  by simp

lemma upper_btc: "upper ''btc'' = ''BTC''"
  by code_simp

lemma demo_run:
  "fst (projr (calculate_portfolio_value demo_http (demo_state demo_holdings))) =
     \<lparr>total_value = Finite 300, total_invested = Finite 180, total_profit_loss = Finite 120,
      total_profit_loss_pct = Finite (2345624805922133 / 35184372088832),
      v_holdings =
        [\<lparr>r_symbol = ''SYM'', r_coin_name = ''bitcoin'', r_amount = Finite 2,
          r_buy_price = Finite 100, r_current_price = Finite 150,
          r_current_value = Finite 300, r_invested = Finite 200, r_profit_loss = Finite 100,
          r_profit_loss_pct = Finite 50, r_change_24h = Finite 2\<rparr>,
         \<lparr>r_symbol = ''SYM'', r_coin_name = ''bitcoin'', r_amount = Finite 1,
          r_buy_price = Finite 0, r_current_price = Finite 150,
          r_current_value = Finite 150, r_invested = Finite 0, r_profit_loss = Finite 150,
          r_profit_loss_pct = Finite 0, r_change_24h = Finite 2\<rparr>,
         \<lparr>r_symbol = ''SYM'', r_coin_name = ''tether'', r_amount = Finite 3,
          r_buy_price = Finite 10, r_current_price = Finite 0,
          r_current_value = Finite 0, r_invested = Finite 30, r_profit_loss = Finite (- 30),
          r_profit_loss_pct = Finite (- 100), r_change_24h = Finite 0\<rparr>,
         \<lparr>r_symbol = ''SYM'', r_coin_name = ''bitcoin'', r_amount = Finite (- 1),
          r_buy_price = Finite 50, r_current_price = Finite 150,
          r_current_value = Finite (- 150), r_invested = Finite (- 50),
          r_profit_loss = Finite (- 100), r_profit_loss_pct = Finite 0,
          r_change_24h = Finite 2\<rparr>]\<rparr>"
  by code_simp

lemma demo_lookups:
  "price_lookups demo_http (demo_state demo_holdings) demo_holdings =
     [ [(''usd'', Finite 150), (''usd_24h_change'', Finite 2)], [],
      [(''usd'', Finite 150), (''usd_24h_change'', Finite 2)],
      [(''usd_market_cap'', Finite 1000)],
      [(''usd'', Finite 150), (''usd_24h_change'', Finite 2)], []]"
  by code_simp

lemma tenth_fifth_floats: "round64 (1 / 10) = Finite tenth \<and> round64 (2 / 10) = Finite fifth"
  by code_simp

lemma zero_buy_run:
  "fst (projr (calculate_portfolio_value demo_http
        (demo_state [demo_holding ''bitcoin'' (Finite 1) (Finite 0),
                     demo_holding ''bitcoin'' (Finite 3) (Finite 0)]))) =
     \<lparr>total_value = Finite 600, total_invested = Finite 0, total_profit_loss = Finite 600,
      total_profit_loss_pct = Finite 0,
      v_holdings =
        [\<lparr>r_symbol = ''SYM'', r_coin_name = ''bitcoin'', r_amount = Finite 1,
          r_buy_price = Finite 0, r_current_price = Finite 150,
          r_current_value = Finite 150, r_invested = Finite 0, r_profit_loss = Finite 150,
          r_profit_loss_pct = Finite 0, r_change_24h = Finite 2\<rparr>,
         \<lparr>r_symbol = ''SYM'', r_coin_name = ''bitcoin'', r_amount = Finite 3,
          r_buy_price = Finite 0, r_current_price = Finite 150,
          r_current_value = Finite 450, r_invested = Finite 0, r_profit_loss = Finite 450,
          r_profit_loss_pct = Finite 0, r_change_24h = Finite 2\<rparr>]\<rparr>"
  by code_simp

lemma no_usd_run:
  "fst (projr (calculate_portfolio_value demo_http
        (demo_state [demo_holding ''bitcoin'' (Finite 2) (Finite 100),
                     demo_holding ''tether'' (Finite 3) (Finite 10)]))) =
     \<lparr>total_value = Finite 300, total_invested = Finite 230, total_profit_loss = Finite 70,
      total_profit_loss_pct = Finite (1070828715747061 / 35184372088832),
      v_holdings =
        [\<lparr>r_symbol = ''SYM'', r_coin_name = ''bitcoin'', r_amount = Finite 2,
          r_buy_price = Finite 100, r_current_price = Finite 150,
          r_current_value = Finite 300, r_invested = Finite 200, r_profit_loss = Finite 100,
          r_profit_loss_pct = Finite 50, r_change_24h = Finite 2\<rparr>,
         \<lparr>r_symbol = ''SYM'', r_coin_name = ''tether'', r_amount = Finite 3,
          r_buy_price = Finite 10, r_current_price = Finite 0,
          r_current_value = Finite 0, r_invested = Finite 30, r_profit_loss = Finite (- 30),
          r_profit_loss_pct = Finite (- 100), r_change_24h = Finite 0\<rparr>]\<rparr>"
  by code_simp

lemma no_usd_lookups:
  "price_lookups demo_http
     (demo_state [demo_holding ''bitcoin'' (Finite 2) (Finite 100),
                  demo_holding ''tether'' (Finite 3) (Finite 10)])
     [demo_holding ''bitcoin'' (Finite 2) (Finite 100),
      demo_holding ''tether'' (Finite 3) (Finite 10)]
   = [ [(''usd'', Finite 150), (''usd_24h_change'', Finite 2)], [(''usd_market_cap'', Finite 1000)]]"
  by code_simp

lemma negative_run:
  "fst (projr (calculate_portfolio_value demo_http
        (add_holding demo_dump demo_clock (demo_state [])
           ''bitcoin'' ''Bitcoin'' ''btc'' (Finite (- 1)) (Finite 50)))) =
     \<lparr>total_value = Finite (- 150), total_invested = Finite (- 50),
      total_profit_loss = Finite (- 100), total_profit_loss_pct = Finite 0,
      v_holdings =
        [\<lparr>r_symbol = ''BTC'', r_coin_name = ''Bitcoin'', r_amount = Finite (- 1),
          r_buy_price = Finite 50, r_current_price = Finite 150,
          r_current_value = Finite (- 150), r_invested = Finite (- 50),
          r_profit_loss = Finite (- 100), r_profit_loss_pct = Finite 0,
          r_change_24h = Finite 2\<rparr>]\<rparr>"
  by code_simp


lemmas demo_defs = demo_holdings_def demo_state_def demo_holding_def demo_http_def
  demo_clock_def demo_dump_def demo_load_def

section \<open>Valuation\<close>

text \<open>
  C1. For every portfolio and every price service, the valuation returns (it never
  raises), and its rows are the rows of the holdings whose lookup returned a quote, one
  row for each such holding, in the order of the holdings; two holdings of the same coin
  give two rows, each with the name, amount and buy price of its own holding. A holding
  whose lookup returned no quote (the empty dictionary) has no row, and the totals are
  accumulated over the rows only, in their order. So there are at most as many rows as
  holdings, and as many exactly when every lookup returned a quote.
\<close>

theorem valuate_rows:
  "\<exists>v st'. calculate_portfolio_value http st = Inr (v, st')
     \<and> map Inr (v_holdings v) = map (\<lambda>(h, pd). holding_row h pd) (priced http st)
     \<and> list_all2 (\<lambda>r (h, pd). r_symbol r = symbol h \<and> r_coin_name r = coin_name h
                        \<and> r_amount r = amount h \<and> r_buy_price r = buy_price h)
           (v_holdings v) (priced http st)
     \<and> total_value v = foldl (+) 0 (map r_current_value (v_holdings v))
     \<and> total_invested v = foldl (+) 0 (map r_invested (v_holdings v))
     \<and> length (v_holdings v) \<le> length (holdings (portfolio st))
     \<and> (length (v_holdings v) = length (holdings (portfolio st))
          \<longleftrightarrow> (\<forall>pd \<in> set (price_lookups http st (holdings (portfolio st))). pd \<noteq> []))"
proof -
  obtain v st' where
    R: "calculate_portfolio_value http st = Inr (v, st')"
    and M: "map Inr (v_holdings v) = map (\<lambda>(h, pd). holding_row h pd) (priced http st)"
    and T: "total_value v = foldl (+) 0 (map r_current_value (v_holdings v))"
           "total_invested v = foldl (+) 0 (map r_invested (v_holdings v))"
    using calculate_char [of http st] by blast
  have len: "length (v_holdings v) = length (priced http st)"
    using arg_cong [OF M, of length] by simp
  have "list_all2 (\<lambda>r (h, pd). holding_row h pd = Inr r) (v_holdings v) (priced http st)"
    using M by (rule rows_of_priced)
  then have A: "list_all2 (\<lambda>r (h, pd). r_symbol r = symbol h \<and> r_coin_name r = coin_name h
                        \<and> r_amount r = amount h \<and> r_buy_price r = buy_price h)
           (v_holdings v) (priced http st)"
    by (rule list_all2_mono) (auto simp: holding_row_eq)
  show ?thesis
    using R M A T len length_priced_le [of http st] all_quoted_iff [of http st] by auto
qed

text \<open>
  On the sample run, six holdings give four rows: the two holdings without a quote are
  left out, and the three holdings of \<open>bitcoin\<close> keep a row each.
\<close>

theorem valuate_rows_witness:
  "\<exists>v st'. calculate_portfolio_value demo_http (demo_state demo_holdings) = Inr (v, st')
     \<and> map r_amount (v_holdings v) = [Finite 2, Finite 1, Finite 3, Finite (- 1)]
     \<and> map r_buy_price (v_holdings v) = [Finite 100, Finite 0, Finite 10, Finite 50]
     \<and> total_value v = Finite 300 \<and> total_invested v = Finite 180
     \<and> length (v_holdings v) < length (holdings (portfolio (demo_state demo_holdings)))
     \<and> \<not> (\<forall>pd \<in> set (price_lookups demo_http (demo_state demo_holdings)
                 (holdings (portfolio (demo_state demo_holdings)))). pd \<noteq> [])"
proof -
  obtain v st' where
    R: "calculate_portfolio_value demo_http (demo_state demo_holdings) = Inr (v, st')"
    and L: "length (v_holdings v) \<le> length (holdings (portfolio (demo_state demo_holdings)))"
    and E: "length (v_holdings v) = length (holdings (portfolio (demo_state demo_holdings)))
          \<longleftrightarrow> (\<forall>pd \<in> set (price_lookups demo_http (demo_state demo_holdings)
                 (holdings (portfolio (demo_state demo_holdings)))). pd \<noteq> [])"
    using valuate_rows [of demo_http "demo_state demo_holdings"] by blast
  have hs: "holdings (portfolio (demo_state demo_holdings)) = demo_holdings"
    by (simp add: demo_state_def)
  have N: "\<not> (\<forall>pd \<in> set (price_lookups demo_http (demo_state demo_holdings)
                 (holdings (portfolio (demo_state demo_holdings)))). pd \<noteq> [])"
    by (simp add: hs demo_lookups)
  from R have v: "v = fst (projr (calculate_portfolio_value demo_http (demo_state demo_holdings)))"
    by (rule returned_valuation)
  show ?thesis
    using R L E N by (simp add: v demo_run)
qed

text \<open>
  C2, as the code has it. The numbers are floats, so the arithmetic of the valuation is
  the rounded arithmetic of binary64 and not the exact one: the row of a holding has
  \<open>current_value = amount * usd\<close> for the \<open>usd\<close> of its quote (read by
  \<open>price_data.get('usd', 0)\<close>), \<open>invested = amount * buy_price\<close> and
  \<open>profit_loss = current_value - invested\<close>, each the float product or difference.
  The rows stand one to one, in order, against the holdings that have a quote, and
  \<open>total_value\<close> and \<open>total_invested\<close> are the float sums of \<open>current_value\<close>
  and \<open>invested\<close> accumulated from 0 over these rows in their order, with
  \<open>total_profit_loss = total_value - total_invested\<close> as a float difference.
\<close>

theorem valuate_arithmetic:
  "\<exists>v st'. calculate_portfolio_value http st = Inr (v, st')
     \<and> list_all2 (\<lambda>r (h, pd). r_current_price r = dict_get pd ''usd'' 0
                        \<and> r_current_value r = amount h * dict_get pd ''usd'' 0
                        \<and> r_invested r = amount h * buy_price h
                        \<and> r_profit_loss r = r_current_value r - r_invested r)
           (v_holdings v) (priced http st)
     \<and> total_value v = foldl (+) 0 (map r_current_value (v_holdings v))
     \<and> total_invested v = foldl (+) 0 (map r_invested (v_holdings v))
     \<and> total_profit_loss v = total_value v - total_invested v"
proof -
  obtain v st' where
    R: "calculate_portfolio_value http st = Inr (v, st')"
    and M: "map Inr (v_holdings v) = map (\<lambda>(h, pd). holding_row h pd) (priced http st)"
    and T: "total_value v = foldl (+) 0 (map r_current_value (v_holdings v))"
           "total_invested v = foldl (+) 0 (map r_invested (v_holdings v))"
           "total_profit_loss v = total_value v - total_invested v"
    using calculate_char [of http st] by blast
  have "list_all2 (\<lambda>r (h, pd). holding_row h pd = Inr r) (v_holdings v) (priced http st)"
    using M by (rule rows_of_priced)
  then have A: "list_all2 (\<lambda>r (h, pd). r_current_price r = dict_get pd ''usd'' 0
                        \<and> r_current_value r = amount h * dict_get pd ''usd'' 0
                        \<and> r_invested r = amount h * buy_price h
                        \<and> r_profit_loss r = r_current_value r - r_invested r)
           (v_holdings v) (priced http st)"
    by (rule list_all2_mono) (auto simp: holding_row_eq)
  show ?thesis
    using R A T by blast
qed

theorem valuate_arithmetic_witness:
  "\<exists>v st'. calculate_portfolio_value demo_http (demo_state demo_holdings) = Inr (v, st')
     \<and> map r_current_value (v_holdings v) = [Finite 300, Finite 150, Finite 0, Finite (- 150)]
     \<and> map r_invested (v_holdings v) = [Finite 200, Finite 0, Finite 30, Finite (- 50)]
     \<and> map r_profit_loss (v_holdings v) = [Finite 100, Finite 150, Finite (- 30), Finite (- 100)]
     \<and> total_value v = Finite 300 \<and> total_invested v = Finite 180
     \<and> total_profit_loss v = Finite 120"
proof -
  obtain v st' where
    R: "calculate_portfolio_value demo_http (demo_state demo_holdings) = Inr (v, st')"
    using valuate_arithmetic [of demo_http "demo_state demo_holdings"] by blast
  from R have v: "v = fst (projr (calculate_portfolio_value demo_http (demo_state demo_holdings)))"
    by (rule returned_valuation)
  show ?thesis
    using R by (simp add: v demo_run)
qed

text \<open>
  With the floats nearest to 0.1 and 0.2 as amount and buy price, \<open>invested\<close> is
  0.020000000000000004 and not the product of the two numbers; and the total of ten rows
  worth 0.1 each is 0.9999999999999999, not ten times that value.
\<close>

theorem valuate_exact_arithmetic_counterexample:
  "map r_invested (v_holdings (fst (projr (calculate_portfolio_value demo_http
       (demo_state [demo_holding ''bitcoin'' (Finite tenth) (Finite fifth)])))))
     \<noteq> [Finite (tenth * fifth)]
   \<and> total_value (fst (projr (calculate_portfolio_value demo_http
       (demo_state (replicate 10 (demo_holding ''dollar'' (Finite tenth) (Finite 1)))))))
     \<noteq> Finite (10 * tenth)"
  by code_simp

text \<open>
  C4. The valuation never divides by zero: it returns a result for every portfolio and
  price service, never \<open>ZeroDivisionError\<close>. In it, the row of a holding whose
  \<open>buy_price\<close> is 0 has \<open>profit_loss_pct = 0\<close>, and \<open>total_profit_loss_pct\<close> is 0
  when \<open>total_invested\<close> is 0.
\<close>

theorem zero_buy_price_pct:
  "\<exists>v st'. calculate_portfolio_value http st = Inr (v, st')
     \<and> list_all2 (\<lambda>r (h, pd). buy_price h = 0 \<longrightarrow> r_profit_loss_pct r = 0)
           (v_holdings v) (priced http st)
     \<and> (\<forall>r \<in> set (v_holdings v). r_buy_price r = 0 \<longrightarrow> r_profit_loss_pct r = 0)
     \<and> (total_invested v = 0 \<longrightarrow> total_profit_loss_pct v = 0)"
proof -
  obtain v st' where
    R: "calculate_portfolio_value http st = Inr (v, st')"
    and M: "map Inr (v_holdings v) = map (\<lambda>(h, pd). holding_row h pd) (priced http st)"
    and T: "total_profit_loss_pct v =
             (if 0 < total_invested v
              then fl_div (total_profit_loss v) (total_invested v) * Finite 100 else 0)"
    using calculate_char [of http st] by blast
  have L: "list_all2 (\<lambda>r (h, pd). holding_row h pd = Inr r) (v_holdings v) (priced http st)"
    using M by (rule rows_of_priced)
  then have A: "list_all2 (\<lambda>r (h, pd). buy_price h = 0 \<longrightarrow> r_profit_loss_pct r = 0)
           (v_holdings v) (priced http st)"
    by (rule list_all2_mono) (auto simp: holding_row_eq times_zero_not_positive)
  have B: "\<forall>r \<in> set (v_holdings v). r_buy_price r = 0 \<longrightarrow> r_profit_loss_pct r = 0"
  proof
    fix r assume "r \<in> set (v_holdings v)"
    with L obtain h pd where "holding_row h pd = Inr r"
      using row_of_priced by blast
    then show "r_buy_price r = 0 \<longrightarrow> r_profit_loss_pct r = 0"
      by (auto simp: holding_row_eq times_zero_not_positive)
  qed
  have C: "total_invested v = 0 \<longrightarrow> total_profit_loss_pct v = 0"
    using T by (simp add: zero_not_positive)
  show ?thesis
    using R A B C by blast
qed

text \<open>Two holdings bought at price 0: both rows and the totals have the percentage 0.\<close>

theorem zero_buy_price_pct_witness:
  "\<exists>v st'. calculate_portfolio_value demo_http
              (demo_state [demo_holding ''bitcoin'' (Finite 1) (Finite 0),
                           demo_holding ''bitcoin'' (Finite 3) (Finite 0)])
            = Inr (v, st')
     \<and> map r_buy_price (v_holdings v) = [0, 0]
     \<and> map r_profit_loss (v_holdings v) = [Finite 150, Finite 450]
     \<and> map r_profit_loss_pct (v_holdings v) = [0, 0]
     \<and> total_invested v = 0 \<and> total_profit_loss v = Finite 600
     \<and> total_profit_loss_pct v = 0"
proof -
  obtain v st' where
    R: "calculate_portfolio_value demo_http
              (demo_state [demo_holding ''bitcoin'' (Finite 1) (Finite 0),
                           demo_holding ''bitcoin'' (Finite 3) (Finite 0)])
            = Inr (v, st')"
    using zero_buy_price_pct
            [of demo_http "demo_state [demo_holding ''bitcoin'' (Finite 1) (Finite 0),
                                       demo_holding ''bitcoin'' (Finite 3) (Finite 0)]"]
    by blast
  from R have v: "v = fst (projr (calculate_portfolio_value demo_http
              (demo_state [demo_holding ''bitcoin'' (Finite 1) (Finite 0),
                           demo_holding ''bitcoin'' (Finite 3) (Finite 0)])))"
    by (rule returned_valuation)
  show ?thesis
    using R by (simp add: v zero_buy_run zero_pyfloat_def)
qed

text \<open>
  C9, as the code has it. A holding whose lookup returned a dictionary that is not empty
  but has no \<open>usd\<close> key is not skipped: it has a row, with its own name, amount and buy
  price, with \<open>current_price = 0\<close>, \<open>current_value = amount * 0\<close> and
  \<open>profit_loss = current_value - invested\<close>, and the totals are accumulated over all
  rows, this one included. When the amount is finite, \<open>current_value\<close> is 0 and
  \<open>profit_loss\<close> is \<open>- invested\<close>; when the amount is infinite or \<open>nan\<close>, both are
  \<open>nan\<close>.
\<close>

theorem quote_without_usd:
  "\<exists>v st'. calculate_portfolio_value http st = Inr (v, st')
     \<and> (\<forall>(h, pd) \<in> set (zip (holdings (portfolio st))
                            (price_lookups http st (holdings (portfolio st)))).
           pd \<noteq> [] \<and> map_of pd ''usd'' = None \<longrightarrow>
             (\<exists>r \<in> set (v_holdings v).
                r_symbol r = symbol h \<and> r_coin_name r = coin_name h
                \<and> r_amount r = amount h \<and> r_buy_price r = buy_price h
                \<and> r_current_price r = 0 \<and> r_current_value r = amount h * 0
                \<and> r_invested r = amount h * buy_price h
                \<and> r_profit_loss r = r_current_value r - r_invested r
                \<and> (is_finite (amount h) \<longrightarrow>
                      r_current_value r = 0 \<and> r_profit_loss r = - r_invested r)
                \<and> (\<not> is_finite (amount h) \<longrightarrow>
                      r_current_value r = NaN \<and> r_profit_loss r = NaN)))
     \<and> list_all2 (\<lambda>r (h, pd). map_of pd ''usd'' = None \<longrightarrow>
                        r_current_price r = 0
                        \<and> (is_finite (amount h) \<longrightarrow>
                              r_current_value r = 0 \<and> r_profit_loss r = - r_invested r))
           (v_holdings v) (priced http st)
     \<and> total_value v = foldl (+) 0 (map r_current_value (v_holdings v))
     \<and> total_invested v = foldl (+) 0 (map r_invested (v_holdings v))"
proof -
  obtain v st' where
    R: "calculate_portfolio_value http st = Inr (v, st')"
    and M: "map Inr (v_holdings v) = map (\<lambda>(h, pd). holding_row h pd) (priced http st)"
    and T: "total_value v = foldl (+) 0 (map r_current_value (v_holdings v))"
           "total_invested v = foldl (+) 0 (map r_invested (v_holdings v))"
    using calculate_char [of http st] by blast
  have row: "r_symbol r = symbol h \<and> r_coin_name r = coin_name h
                \<and> r_amount r = amount h \<and> r_buy_price r = buy_price h
                \<and> r_current_price r = 0 \<and> r_current_value r = amount h * 0
                \<and> r_invested r = amount h * buy_price h
                \<and> r_profit_loss r = r_current_value r - r_invested r
                \<and> (is_finite (amount h) \<longrightarrow>
                      r_current_value r = 0 \<and> r_profit_loss r = - r_invested r)
                \<and> (\<not> is_finite (amount h) \<longrightarrow>
                      r_current_value r = NaN \<and> r_profit_loss r = NaN)"
    if "holding_row h pd = Inr r" and "map_of pd ''usd'' = None" for r h pd
    using that
    by (cases "amount h")
       (auto simp: holding_row_eq dict_get_def finite_times_zero infinite_times_zero
          zero_minus nan_minus)
  have L: "list_all2 (\<lambda>r (h, pd). holding_row h pd = Inr r) (v_holdings v) (priced http st)"
    using M by (rule rows_of_priced)
  then have A: "list_all2 (\<lambda>r (h, pd). map_of pd ''usd'' = None \<longrightarrow>
                        r_current_price r = 0
                        \<and> (is_finite (amount h) \<longrightarrow>
                              r_current_value r = 0 \<and> r_profit_loss r = - r_invested r))
           (v_holdings v) (priced http st)"
    by (rule list_all2_mono) (use row in blast)
  have B: "\<forall>(h, pd) \<in> set (zip (holdings (portfolio st))
                            (price_lookups http st (holdings (portfolio st)))).
           pd \<noteq> [] \<and> map_of pd ''usd'' = None \<longrightarrow>
             (\<exists>r \<in> set (v_holdings v).
                r_symbol r = symbol h \<and> r_coin_name r = coin_name h
                \<and> r_amount r = amount h \<and> r_buy_price r = buy_price h
                \<and> r_current_price r = 0 \<and> r_current_value r = amount h * 0
                \<and> r_invested r = amount h * buy_price h
                \<and> r_profit_loss r = r_current_value r - r_invested r
                \<and> (is_finite (amount h) \<longrightarrow>
                      r_current_value r = 0 \<and> r_profit_loss r = - r_invested r)
                \<and> (\<not> is_finite (amount h) \<longrightarrow>
                      r_current_value r = NaN \<and> r_profit_loss r = NaN))"
  proof (clarify)
    fix h pd
    assume mem: "(h, pd) \<in> set (zip (holdings (portfolio st))
                            (price_lookups http st (holdings (portfolio st))))"
      and ne: "pd \<noteq> []" and nousd: "map_of pd ''usd'' = None"
    from mem ne have "(h, pd) \<in> set (priced http st)"
      by (simp add: priced_def)
    with L obtain r where r: "r \<in> set (v_holdings v)" "holding_row h pd = Inr r"
      using priced_has_row by blast
    from row [OF r(2) nousd] r(1)
    show "\<exists>r \<in> set (v_holdings v).
                r_symbol r = symbol h \<and> r_coin_name r = coin_name h
                \<and> r_amount r = amount h \<and> r_buy_price r = buy_price h
                \<and> r_current_price r = 0 \<and> r_current_value r = amount h * 0
                \<and> r_invested r = amount h * buy_price h
                \<and> r_profit_loss r = r_current_value r - r_invested r
                \<and> (is_finite (amount h) \<longrightarrow>
                      r_current_value r = 0 \<and> r_profit_loss r = - r_invested r)
                \<and> (\<not> is_finite (amount h) \<longrightarrow>
                      r_current_value r = NaN \<and> r_profit_loss r = NaN)"
      by blast
  qed
  show ?thesis
    using R A B T by blast
qed

text \<open>
  The sample service answers \<open>tether\<close> with a market cap only: the holding of 3 bought
  at 10 has a row worth 0 with a loss of 30, and its 30 are part of \<open>total_invested\<close>.
\<close>

theorem quote_without_usd_witness:
  "\<exists>v st'. calculate_portfolio_value demo_http
              (demo_state [demo_holding ''bitcoin'' (Finite 2) (Finite 100),
                           demo_holding ''tether'' (Finite 3) (Finite 10)])
            = Inr (v, st')
     \<and> price_lookups demo_http
          (demo_state [demo_holding ''bitcoin'' (Finite 2) (Finite 100),
                       demo_holding ''tether'' (Finite 3) (Finite 10)])
          [demo_holding ''bitcoin'' (Finite 2) (Finite 100),
           demo_holding ''tether'' (Finite 3) (Finite 10)]
        = [ [(''usd'', Finite 150), (''usd_24h_change'', Finite 2)],
           [(''usd_market_cap'', Finite 1000)]]
     \<and> map r_current_price (v_holdings v) = [Finite 150, 0]
     \<and> map r_current_value (v_holdings v) = [Finite 300, 0]
     \<and> map r_invested (v_holdings v) = [Finite 200, Finite 30]
     \<and> map r_profit_loss (v_holdings v) = [Finite 100, Finite (- 30)]
     \<and> total_value v = Finite 300 \<and> total_invested v = Finite 230"
proof -
  obtain v st' where
    R: "calculate_portfolio_value demo_http
              (demo_state [demo_holding ''bitcoin'' (Finite 2) (Finite 100),
                           demo_holding ''tether'' (Finite 3) (Finite 10)])
            = Inr (v, st')"
    using quote_without_usd
            [of demo_http "demo_state [demo_holding ''bitcoin'' (Finite 2) (Finite 100),
                                       demo_holding ''tether'' (Finite 3) (Finite 10)]"]
    by blast
  from R have v: "v = fst (projr (calculate_portfolio_value demo_http
              (demo_state [demo_holding ''bitcoin'' (Finite 2) (Finite 100),
                           demo_holding ''tether'' (Finite 3) (Finite 10)])))"
    by (rule returned_valuation)
  show ?thesis
    using R by (simp add: v no_usd_run no_usd_lookups zero_pyfloat_def del: price_lookups.simps)
qed

text \<open>
  An amount of \<open>inf\<close>, which the menu accepts: the quote of \<open>tether\<close> has no \<open>usd\<close>,
  the price is 0, and \<open>current_value\<close> and \<open>profit_loss\<close> are \<open>nan\<close>, not 0 and
  \<open>- invested\<close>.
\<close>

theorem quote_without_usd_counterexample:
  "map r_current_price (v_holdings (fst (projr (calculate_portfolio_value demo_http
       (demo_state [demo_holding ''tether'' PInf (Finite 10)]))))) = [Finite 0]
   \<and> map r_current_value (v_holdings (fst (projr (calculate_portfolio_value demo_http
       (demo_state [demo_holding ''tether'' PInf (Finite 10)]))))) = [NaN]
   \<and> map r_invested (v_holdings (fst (projr (calculate_portfolio_value demo_http
       (demo_state [demo_holding ''tether'' PInf (Finite 10)]))))) = [PInf]
   \<and> map r_profit_loss (v_holdings (fst (projr (calculate_portfolio_value demo_http
       (demo_state [demo_holding ''tether'' PInf (Finite 10)]))))) = [NaN]"
  by code_simp

text \<open>
  C10. The guard of the percentage is \<open>invested > 0\<close>, and nothing rejects a negative
  amount or price. So the row of a holding whose \<open>amount * buy_price\<close> is negative has
  \<open>profit_loss_pct = 0\<close>, not a computed percentage, and \<open>total_profit_loss_pct\<close> is
  0 whenever \<open>total_invested\<close> is negative.
\<close>

theorem negative_invested_pct:
  "\<exists>v st'. calculate_portfolio_value http st = Inr (v, st')
     \<and> list_all2 (\<lambda>r (h, pd). amount h * buy_price h < 0 \<longrightarrow>
                        r_invested r < 0 \<and> r_profit_loss_pct r = 0)
           (v_holdings v) (priced http st)
     \<and> (\<forall>r \<in> set (v_holdings v). r_invested r < 0 \<longrightarrow> r_profit_loss_pct r = 0)
     \<and> (total_invested v < 0 \<longrightarrow> total_profit_loss_pct v = 0)"
proof -
  obtain v st' where
    R: "calculate_portfolio_value http st = Inr (v, st')"
    and M: "map Inr (v_holdings v) = map (\<lambda>(h, pd). holding_row h pd) (priced http st)"
    and T: "total_profit_loss_pct v =
             (if 0 < total_invested v
              then fl_div (total_profit_loss v) (total_invested v) * Finite 100 else 0)"
    using calculate_char [of http st] by blast
  have L: "list_all2 (\<lambda>r (h, pd). holding_row h pd = Inr r) (v_holdings v) (priced http st)"
    using M by (rule rows_of_priced)
  then have A: "list_all2 (\<lambda>r (h, pd). amount h * buy_price h < 0 \<longrightarrow>
                        r_invested r < 0 \<and> r_profit_loss_pct r = 0)
           (v_holdings v) (priced http st)"
    by (rule list_all2_mono) (auto simp: holding_row_eq dest: negative_not_positive)
  have B: "\<forall>r \<in> set (v_holdings v). r_invested r < 0 \<longrightarrow> r_profit_loss_pct r = 0"
  proof
    fix r assume "r \<in> set (v_holdings v)"
    with L obtain h pd where "holding_row h pd = Inr r"
      using row_of_priced by blast
    then show "r_invested r < 0 \<longrightarrow> r_profit_loss_pct r = 0"
      by (auto simp: holding_row_eq dest: negative_not_positive)
  qed
  have C: "total_invested v < 0 \<longrightarrow> total_profit_loss_pct v = 0"
    using T by (auto dest: negative_not_positive)
  show ?thesis
    using R A B C by blast
qed

text \<open>
  A negative amount goes through \<open>add_holding\<close> unchanged; valued at 150, the holding
  of \<open>- 1\<close> bought at 50 has \<open>invested = - 50\<close>, a loss of 100 and the percentage 0.
\<close>

theorem negative_invested_pct_witness:
  "\<exists>v st'. calculate_portfolio_value demo_http
              (add_holding demo_dump demo_clock (demo_state [])
                 ''bitcoin'' ''Bitcoin'' ''btc'' (Finite (- 1)) (Finite 50))
            = Inr (v, st')
     \<and> map r_amount (v_holdings v) = [Finite (- 1)]
     \<and> map r_invested (v_holdings v) = [Finite (- 50)]
     \<and> Finite (- 50) < 0
     \<and> map r_profit_loss (v_holdings v) = [Finite (- 100)]
     \<and> map r_profit_loss_pct (v_holdings v) = [0]
     \<and> total_invested v = Finite (- 50) \<and> total_profit_loss v = Finite (- 100)
     \<and> total_profit_loss_pct v = 0"
proof -
  obtain v st' where
    R: "calculate_portfolio_value demo_http
              (add_holding demo_dump demo_clock (demo_state [])
                 ''bitcoin'' ''Bitcoin'' ''btc'' (Finite (- 1)) (Finite 50))
            = Inr (v, st')"
    using negative_invested_pct
            [of demo_http "add_holding demo_dump demo_clock (demo_state [])
                 ''bitcoin'' ''Bitcoin'' ''btc'' (Finite (- 1)) (Finite 50)"]
    by blast
  from R have v: "v = fst (projr (calculate_portfolio_value demo_http
              (add_holding demo_dump demo_clock (demo_state [])
                 ''bitcoin'' ''Bitcoin'' ''btc'' (Finite (- 1)) (Finite 50))))"
    by (rule returned_valuation)
  show ?thesis
    using R by (simp add: v negative_run zero_pyfloat_def less_pyfloat_def)
qed

section \<open>Adding and removing\<close>

text \<open>
  C7. Every call of \<open>add_holding\<close> appends one holding, whose symbol is the given one
  in upper case, and one transaction of type \<open>buy\<close> whose coin id, amount and price
  are those of the holding. Both lists grow by one, and what they held before stays in
  front, unchanged.
\<close>

theorem add_holding_appends:
  "\<exists>h t. holdings (portfolio (add_holding json_dump now st cid cname symb amt bp))
             = holdings (portfolio st) @ [h]
     \<and> transactions (portfolio (add_holding json_dump now st cid cname symb amt bp))
             = transactions (portfolio st) @ [t]
     \<and> coin_id h = cid \<and> coin_name h = cname \<and> symbol h = upper symb
     \<and> amount h = amt \<and> buy_price h = bp
     \<and> t_type t = ''buy'' \<and> t_coin_id t = coin_id h \<and> t_amount t = amount h
     \<and> t_price t = buy_price h
     \<and> length (holdings (portfolio (add_holding json_dump now st cid cname symb amt bp)))
           = length (holdings (portfolio st)) + 1
     \<and> length (transactions (portfolio (add_holding json_dump now st cid cname symb amt bp)))
           = length (transactions (portfolio st)) + 1
     \<and> take (length (holdings (portfolio st)))
             (holdings (portfolio (add_holding json_dump now st cid cname symb amt bp)))
           = holdings (portfolio st)
     \<and> take (length (transactions (portfolio st)))
             (transactions (portfolio (add_holding json_dump now st cid cname symb amt bp)))
           = transactions (portfolio st)"
  by (cases "now (ext st)"; cases "now (snd (now (ext st)))")
     (simp add: add_holding_def save_portfolio_def Let_def)

theorem add_holding_appends_witness:
  "map symbol (holdings (portfolio
      (add_holding demo_dump demo_clock (demo_state [demo_holding ''tether'' (Finite 3) (Finite 10)])
         ''bitcoin'' ''Bitcoin'' ''btc'' (Finite 2) (Finite 100))))
     = [''SYM'', ''BTC'']
   \<and> map t_type (transactions (portfolio
      (add_holding demo_dump demo_clock (demo_state [demo_holding ''tether'' (Finite 3) (Finite 10)])
         ''bitcoin'' ''Bitcoin'' ''btc'' (Finite 2) (Finite 100))))
     = [''buy'']
   \<and> map t_coin_id (transactions (portfolio
      (add_holding demo_dump demo_clock (demo_state [demo_holding ''tether'' (Finite 3) (Finite 10)])
         ''bitcoin'' ''Bitcoin'' ''btc'' (Finite 2) (Finite 100))))
     = [''bitcoin'']"
  using add_holding_appends
          [of demo_dump demo_clock "demo_state [demo_holding ''tether'' (Finite 3) (Finite 10)]"
              "''bitcoin''" "''Bitcoin''" "''btc''" "Finite 2" "Finite 100"]
  by (simp add: demo_defs add_holding_def save_portfolio_def Let_def upper_btc)

text \<open>
  C3, as the code has it. \<open>add_holding\<close> is given no timestamp: it reads the clock
  once for the holding and once more for the transaction. \<open>date_added\<close> is the first
  reading and the transaction's \<open>date\<close> is the second, taken after the first; the two
  are equal exactly when the clock returns the same text at both readings.
\<close>

theorem add_holding_two_clock_readings:
  "date_added (last (holdings (portfolio (add_holding json_dump now st cid cname symb amt bp))))
     = fst (now (ext st))
   \<and> t_date (last (transactions (portfolio (add_holding json_dump now st cid cname symb amt bp))))
     = fst (now (snd (now (ext st))))
   \<and> ext (add_holding json_dump now st cid cname symb amt bp) = snd (now (snd (now (ext st))))"
  by (cases "now (ext st)"; cases "now (snd (now (ext st)))")
     (simp add: add_holding_def save_portfolio_def Let_def)

theorem add_holding_two_clock_readings_witness:
  "date_added (last (holdings (portfolio
      (add_holding demo_dump demo_clock (demo_state [])
         ''bitcoin'' ''Bitcoin'' ''btc'' (Finite 2) (Finite 100)))))
     = ''2024-01-01T10:00:00.000001''
   \<and> t_date (last (transactions (portfolio
      (add_holding demo_dump demo_clock (demo_state [])
         ''bitcoin'' ''Bitcoin'' ''btc'' (Finite 2) (Finite 100)))))
     = ''2024-01-01T10:00:00.000002''"
  using add_holding_two_clock_readings
          [of demo_dump demo_clock "demo_state []" "''bitcoin''" "''Bitcoin''" "''btc''"
              "Finite 2" "Finite 100"]
  by (simp add: demo_clock_def demo_state_def)

text \<open>With a clock that has moved on between the two readings the timestamps differ.\<close>

theorem add_holding_same_timestamp_counterexample:
  "date_added (last (holdings (portfolio
      (add_holding demo_dump demo_clock (demo_state [])
         ''bitcoin'' ''Bitcoin'' ''btc'' (Finite 2) (Finite 100)))))
   \<noteq> t_date (last (transactions (portfolio
      (add_holding demo_dump demo_clock (demo_state [])
         ''bitcoin'' ''Bitcoin'' ''btc'' (Finite 2) (Finite 100)))))"
  by (simp add: demo_defs add_holding_def save_portfolio_def Let_def)

text \<open>
  C5. For an index below 0 or not below the number of holdings, \<open>remove_holding\<close>
  rejects the call: it prints \<open>Invalid index\<close> and does nothing else. The holdings,
  the transactions and the saved files are as before.
\<close>

theorem remove_holding_out_of_range:
  assumes "index < 0 \<or> int (length (holdings (portfolio st))) \<le> index"
  shows "remove_holding json_dump st index = st\<lparr>printed := printed st @ [Invalid_index]\<rparr>
     \<and> holdings (portfolio (remove_holding json_dump st index)) = holdings (portfolio st)
     \<and> transactions (portfolio (remove_holding json_dump st index)) = transactions (portfolio st)
     \<and> files (remove_holding json_dump st index) = files st"
  using assms by (auto simp: remove_holding_def)

theorem remove_holding_out_of_range_witness:
  "((- 1 :: int) < 0 \<or> int (length (holdings (portfolio (demo_state demo_holdings)))) \<le> - 1)
   \<and> printed (remove_holding demo_dump (demo_state demo_holdings) (- 1)) = [Invalid_index]
   \<and> holdings (portfolio (remove_holding demo_dump (demo_state demo_holdings) (- 1)))
       = demo_holdings
   \<and> ((6 :: int) < 0 \<or> int (length (holdings (portfolio (demo_state demo_holdings)))) \<le> 6)
   \<and> printed (remove_holding demo_dump (demo_state demo_holdings) 6) = [Invalid_index]
   \<and> holdings (portfolio (remove_holding demo_dump (demo_state demo_holdings) 6))
       = demo_holdings
   \<and> transactions (portfolio (remove_holding demo_dump (demo_state demo_holdings) 6)) = []"
proof -
  have a: "(- 1 :: int) < 0 \<or> int (length (holdings (portfolio (demo_state demo_holdings)))) \<le> - 1"
    by simp
  have b: "(6 :: int) < 0 \<or> int (length (holdings (portfolio (demo_state demo_holdings)))) \<le> 6"
    by (simp add: demo_state_def demo_holdings_def)
  show ?thesis
    using a b remove_holding_out_of_range [OF a, of demo_dump]
      remove_holding_out_of_range [OF b, of demo_dump]
    by (simp add: demo_state_def)
qed

text \<open>
  C6. For an index from 0 up to, not including, the number of holdings,
  \<open>remove_holding\<close> deletes the holding at that position and nothing else: the
  holdings become \<open>holdings[:index] + holdings[index+1:]\<close>, and the transactions are
  unchanged.
\<close>

theorem remove_holding_positional:
  assumes "0 \<le> index" and "index < int (length (holdings (portfolio st)))"
  shows "holdings (portfolio (remove_holding json_dump st index))
           = take (nat index) (holdings (portfolio st))
             @ drop (nat index + 1) (holdings (portfolio st))
     \<and> transactions (portfolio (remove_holding json_dump st index)) = transactions (portfolio st)
     \<and> length (holdings (portfolio (remove_holding json_dump st index)))
           = length (holdings (portfolio st)) - 1"
  using assms by (auto simp: remove_holding_def save_portfolio_def Let_def)

theorem remove_holding_positional_witness:
  "(0 :: int) \<le> 1
   \<and> 1 < int (length (holdings (portfolio
            (demo_state [demo_holding ''a'' (Finite 1) (Finite 1),
                         demo_holding ''b'' (Finite 2) (Finite 2),
                         demo_holding ''c'' (Finite 3) (Finite 3)]))))
   \<and> holdings (portfolio (remove_holding demo_dump
        (demo_state [demo_holding ''a'' (Finite 1) (Finite 1),
                     demo_holding ''b'' (Finite 2) (Finite 2),
                     demo_holding ''c'' (Finite 3) (Finite 3)]) 1))
       = [demo_holding ''a'' (Finite 1) (Finite 1), demo_holding ''c'' (Finite 3) (Finite 3)]
   \<and> transactions (portfolio (remove_holding demo_dump
        (demo_state [demo_holding ''a'' (Finite 1) (Finite 1),
                     demo_holding ''b'' (Finite 2) (Finite 2),
                     demo_holding ''c'' (Finite 3) (Finite 3)]) 1))
       = []"
proof -
  have a: "(0 :: int) \<le> 1" by simp
  have b: "1 < int (length (holdings (portfolio
            (demo_state [demo_holding ''a'' (Finite 1) (Finite 1),
                         demo_holding ''b'' (Finite 2) (Finite 2),
                         demo_holding ''c'' (Finite 3) (Finite 3)]))))"
    by (simp add: demo_state_def)
  show ?thesis
    using a b remove_holding_positional [OF a b, of demo_dump]
    by (simp add: demo_state_def)
qed

section \<open>The store\<close>




end
